theory Spec2Isabelle
  imports Main "HOL-Library.Word" "HOL-Library.AList"
begin

unbundle bit_operations_syntax

section \<open>Bytes, exceptions and the struct module\<close>

text \<open>
  A Python \<open>bytes\<close> value is a list of 8-bit words. Python integers are unbounded; every
  integer the program handles is a length, a count or an unsigned wire field, so they are
  natural numbers. A raised exception is the left summand of a result.
\<close>

type_synonym byte = "8 word"

datatype error =
    IndexError
  | ValueError string
  | StructError
  | AttributeError string
  | TypeError
  | KeyError
  | SocketError
  | RecursionError

text \<open>\<open>raw[a:b]\<close> for \<open>0 \<le> a\<close>: the slice is clipped to the sequence, never raises.\<close>

definition slice :: "'a list \<Rightarrow> nat \<Rightarrow> nat \<Rightarrow> 'a list" where
  "slice xs a b = take (b - a) (drop a xs)"

text \<open>\<open>struct.pack("!B", v)\<close>, \<open>"!H"\<close> and \<open>"!I"\<close>: big-endian, \<open>struct.error\<close> out of range.\<close>

definition pack_B :: "nat \<Rightarrow> error + byte list" where
  "pack_B v = (if v < 256 then Inr [of_nat v] else Inl StructError)"

definition pack_H :: "nat \<Rightarrow> error + byte list" where
  "pack_H v = (if v < 65536 then Inr [of_nat (v div 256), of_nat (v mod 256)]
               else Inl StructError)"

fun pack_Hs :: "nat list \<Rightarrow> error + byte list" where
  "pack_Hs [] = Inr []"
| "pack_Hs (v # vs) =
     (case pack_H v of
        Inl e \<Rightarrow> Inl e
      | Inr b \<Rightarrow> (case pack_Hs vs of Inl e \<Rightarrow> Inl e | Inr bs \<Rightarrow> Inr (b @ bs)))"

text \<open>\<open>struct.pack(f"{n}s", b)\<close>: the bytes cut or padded with zero bytes to \<open>n\<close>.\<close>

definition pack_s :: "nat \<Rightarrow> byte list \<Rightarrow> byte list" where
  "pack_s n bs = take n (bs @ replicate n 0)"

text \<open>Big-endian value of a byte string, and \<open>struct.unpack\<close> for the formats in use.\<close>

definition be_nat :: "byte list \<Rightarrow> nat" where
  "be_nat bs = foldl (\<lambda>acc b. acc * 256 + unat b) 0 bs"

fun be16s :: "byte list \<Rightarrow> nat list" where
  "be16s (a # b # rest) = be_nat [a, b] # be16s rest"
| "be16s _ = []"

text \<open>\<open>struct.unpack(f"!{n}H", bs)\<close>: \<open>struct.error\<close> unless \<open>bs\<close> has exactly \<open>2 * n\<close> bytes.\<close>

definition unpack_Hs :: "nat \<Rightarrow> byte list \<Rightarrow> error + nat list" where
  "unpack_Hs n bs = (if length bs = 2 * n then Inr (be16s bs) else Inl StructError)"

text \<open>\<open>struct.unpack(f"!{n}B", bs)\<close>.\<close>

definition unpack_Bs :: "nat \<Rightarrow> byte list \<Rightarrow> error + nat list" where
  "unpack_Bs n bs = (if length bs = n then Inr (map unat bs) else Inl StructError)"

text \<open>\<open>struct.unpack("!HHIH", bs)\<close>: type, class, ttl, data length.\<close>

definition unpack_HHIH :: "byte list \<Rightarrow> error + (nat \<times> nat \<times> nat \<times> nat)" where
  "unpack_HHIH bs =
     (if length bs = 10
      then Inr (be_nat (slice bs 0 2), be_nat (slice bs 2 4),
                be_nat (slice bs 4 8), be_nat (slice bs 8 10))
      else Inl StructError)"

section \<open>Strings\<close>

text \<open>
  A \<open>str\<close> is a list of characters with code points below 256. \<open>s.encode()\<close> is UTF-8:
  one byte below 128, two bytes from 128 on. \<open>b.decode('ascii')\<close> raises on a byte from
  128 on.
\<close>

definition encode_char :: "char \<Rightarrow> byte list" where
  "encode_char c =
     (let n = (of_char c :: nat) in
      if n < 128 then [of_nat n]
      else [of_nat (192 + n div 64), of_nat (128 + n mod 64)])"

definition str_encode :: "string \<Rightarrow> byte list" where
  "str_encode s = concat (map encode_char s)"

definition decode_ascii :: "byte list \<Rightarrow> string option" where
  "decode_ascii bs =
     (if list_all (\<lambda>b. unat b < 128) bs then Some (map (\<lambda>b. char_of (unat b)) bs)
      else None)"

text \<open>\<open>sep.join(parts)\<close>.\<close>

fun join :: "string \<Rightarrow> string list \<Rightarrow> string" where
  "join sep [] = []"
| "join sep [p] = p"
| "join sep (p # q # ps) = p @ sep @ join sep (q # ps)"

text \<open>
  \<open>s.split(".")\<close>: the labels between the dots; always at least one part. The
  accumulator is the part being read.
\<close>

fun split_acc :: "string \<Rightarrow> string \<Rightarrow> string list" where
  "split_acc acc [] = [acc]"
| "split_acc acc (c # cs) =
     (if c = CHR ''.'' then acc # split_acc [] cs else split_acc (acc @ [c]) cs)"

definition split_dot :: "string \<Rightarrow> string list" where
  "split_dot s = split_acc [] s"

text \<open>\<open>str(n)\<close> for a non-negative integer, and \<open>f"{n:04x}"\<close>.\<close>

definition digit_char :: "nat \<Rightarrow> char" where
  "digit_char n = (if n < 10 then char_of (48 + n) else char_of (87 + n))"

function str_nat :: "nat \<Rightarrow> string" where
  "str_nat n = (if n < 10 then [digit_char n] else str_nat (n div 10) @ [digit_char (n mod 10)])"
  by pat_completeness auto
termination
  by (relation "measure id") auto

function hex_nat :: "nat \<Rightarrow> string" where
  "hex_nat n = (if n < 16 then [digit_char n] else hex_nat (n div 16) @ [digit_char (n mod 16)])"
  by pat_completeness auto
termination
  by (relation "measure id") auto

definition hex04 :: "nat \<Rightarrow> string" where
  "hex04 n = (let h = hex_nat n in replicate (4 - length h) CHR ''0'' @ h)"

section \<open>Wire types (parse_data.py)\<close>

text \<open>\<open>DNSRecordType\<close> and \<open>DNSClass\<close> are integer enumerations; on the wire and in the
  parsed values they are plain integers.\<close>

definition DNSRecordType_A :: nat where "DNSRecordType_A = 1"
definition DNSRecordType_NS :: nat where "DNSRecordType_NS = 2"
definition DNSRecordType_PTR :: nat where "DNSRecordType_PTR = 12"
definition DNSRecordType_AAAA :: nat where "DNSRecordType_AAAA = 28"
definition DNSClass_IN :: nat where "DNSClass_IN = 1"

record DNSHeader =
  packet_id :: nat
  flags :: nat
  questions_count :: nat
  answers_count :: nat
  authority_count :: nat
  additional_count :: nat

record DNSQuestion =
  q_domain :: string
  q_record_type :: nat
  q_record_class :: nat

record DNSResourceRecord =
  domain :: string
  record_type :: nat
  record_class :: nat
  ttl :: nat
  data_length :: nat
  data :: string

section \<open>Encoder (pack_data.py)\<close>

text \<open>
  \<open>create_error_response\<close>: the id bytes as given, then five 16-bit words. The flags word
  is \<open>(1 << 15) | (4 << 8)\<close>.
\<close>

definition create_error_response :: "byte list \<Rightarrow> error + byte list" where
  "create_error_response request_id =
     (case pack_Hs [push_bit 15 1 OR push_bit 8 4, 0, 0, 0, 0] of
        Inl e \<Rightarrow> Inl e
      | Inr bs \<Rightarrow> Inr (request_id @ bs))"

text \<open>
  \<open>encode_domain_name\<close>: for every label of \<open>domain.split(".")\<close> a length byte (the number
  of characters) and the label's bytes cut or padded to that length; then a zero byte. The
  loop state is the pair of the running length and the bytes so far.
\<close>

fun encode_labels :: "string list \<Rightarrow> nat \<times> byte list \<Rightarrow> error + (nat \<times> byte list)" where
  "encode_labels [] (total_length, encoded) = Inr (total_length, encoded)"
| "encode_labels (label # labels) (total_length, encoded) =
     (let label_len = length label in
      case pack_B label_len of
        Inl e \<Rightarrow> Inl e
      | Inr lb \<Rightarrow>
          encode_labels labels
            (total_length + label_len + 1,
             encoded @ lb @ pack_s label_len (str_encode label)))"

definition encode_domain_name :: "string \<Rightarrow> error + (nat \<times> byte list)" where
  "encode_domain_name dname =
     (case encode_labels (split_dot dname) (0, []) of
        Inl e \<Rightarrow> Inl e
      | Inr (total_length, encoded) \<Rightarrow> Inr (total_length + 1, encoded @ [0]))"

text \<open>\<open>build_query_packet\<close>: header with flags \<open>0x0100\<close> and one question.\<close>

definition build_query_packet :: "nat \<Rightarrow> string \<Rightarrow> nat \<Rightarrow> nat \<Rightarrow> error + byte list" where
  "build_query_packet query_id dname rtype rclass =
     (case pack_Hs [query_id, 256, 1, 0, 0, 0] of
        Inl e \<Rightarrow> Inl e
      | Inr header \<Rightarrow>
          (case encode_domain_name dname of
             Inl e \<Rightarrow> Inl e
           | Inr (_, encoded_domain) \<Rightarrow>
               (case pack_Hs [rtype, rclass] of
                  Inl e \<Rightarrow> Inl e
                | Inr tc \<Rightarrow> Inr (header @ encoded_domain @ tc))))"


section \<open>Decoder (parse_data.py)\<close>

record DNSPacket =
  raw_data :: "byte list"
  position :: nat
  header :: DNSHeader
  questions :: "DNSQuestion list"
  answers :: "DNSResourceRecord list"
  authority_records :: "DNSResourceRecord list"
  additional_records :: "DNSResourceRecord list"

text \<open>
  A parsing step either raises, or returns a value and the new cursor, or (the name loop on
  a pointer cycle) does not return: \<open>None\<close> is not returning.
\<close>

type_synonym 'a parse = "(error + ('a \<times> nat)) option"

text \<open>
  The \<open>while True\<close> loop of \<open>_read_domain_name\<close>. Its state is \<open>current_pos\<close>,
  \<open>compression_offset\<close> and \<open>name_parts\<close>; it returns the parts and the new value of
  \<open>self._position\<close>. Indexing \<open>raw_data\<close> past its end raises IndexError.
\<close>

text \<open>The target of a pointer: \<open>((byte & 0x3F) << 8) | raw_data[current_pos + 1]\<close>.\<close>

definition pointer_offset :: "byte \<Rightarrow> byte \<Rightarrow> nat" where
  "pointer_offset b next_byte = push_bit 8 (unat (b AND 0x3F)) OR unat next_byte"

partial_function (option) read_loop ::
  "byte list \<Rightarrow> nat \<Rightarrow> nat option \<Rightarrow> byte list list \<Rightarrow> (byte list list) parse"
where
  "read_loop raw current_pos compression_offset name_parts =
     (if length raw \<le> current_pos then Some (Inl IndexError)
      else if (raw ! current_pos) AND 0xC0 = 0xC0 then
        (if length raw \<le> current_pos + 1 then Some (Inl IndexError)
         else if length raw \<le> pointer_offset (raw ! current_pos) (raw ! (current_pos + 1))
         then Some (Inl (ValueError ''Invalid compression offset''))
         else read_loop raw
                (pointer_offset (raw ! current_pos) (raw ! (current_pos + 1)))
                (case compression_offset of None \<Rightarrow> Some (current_pos + 2) | Some c \<Rightarrow> Some c)
                name_parts)
      else if 63 < unat (raw ! current_pos) then
        Some (Inl (ValueError (''Invalid label length: '' @ str_nat (unat (raw ! current_pos)))))
      else if raw ! current_pos = 0 then
        Some (Inr (name_parts,
                   (case compression_offset of None \<Rightarrow> current_pos + 1 | Some c \<Rightarrow> c)))
      else if length raw < current_pos + 1 + unat (raw ! current_pos) then
        Some (Inl (ValueError ''Label exceeds packet bounds''))
      else read_loop raw (current_pos + 1 + unat (raw ! current_pos)) compression_offset
             (name_parts @
              [slice raw (current_pos + 1) (current_pos + 1 + unat (raw ! current_pos))]))"

declare read_loop.simps [code]

text \<open>The parts decoded as ASCII; one bad byte raises.\<close>

fun decode_parts :: "byte list list \<Rightarrow> string list option" where
  "decode_parts [] = Some []"
| "decode_parts (p # ps) =
     (case decode_ascii p of
        None \<Rightarrow> None
      | Some s \<Rightarrow> (case decode_parts ps of None \<Rightarrow> None | Some ss \<Rightarrow> Some (s # ss)))"

definition read_domain_name :: "byte list \<Rightarrow> nat \<Rightarrow> string parse" where
  "read_domain_name raw pos =
     (case read_loop raw pos None [] of
        None \<Rightarrow> None
      | Some (Inl e) \<Rightarrow> Some (Inl e)
      | Some (Inr (name_parts, new_pos)) \<Rightarrow>
          (case decode_parts name_parts of
             None \<Rightarrow> Some (Inl (ValueError ''Invalid ASCII in domain name''))
           | Some strs \<Rightarrow> Some (Inr (join ''.'' strs, new_pos))))"

definition parse_record_data :: "byte list \<Rightarrow> nat \<Rightarrow> nat \<Rightarrow> nat \<Rightarrow> string parse" where
  "parse_record_data raw pos rtype dlen =
     (if rtype = DNSRecordType_A then
        (case unpack_Bs dlen (slice raw pos (pos + dlen)) of
           Inl e \<Rightarrow> Some (Inl e)
         | Inr octets \<Rightarrow> Some (Inr (join ''.'' (map str_nat octets), pos + dlen)))
      else if rtype = DNSRecordType_NS \<or> rtype = DNSRecordType_PTR then
        read_domain_name raw pos
      else if rtype = DNSRecordType_AAAA then
        (case unpack_Hs (dlen div 2) (slice raw pos (pos + dlen)) of
           Inl e \<Rightarrow> Some (Inl e)
         | Inr hextets \<Rightarrow> Some (Inr (join '':'' (map hex04 hextets), pos + dlen)))
      else Some (Inl (ValueError (''Unsupported record type: '' @ str_nat rtype))))"

text \<open>\<open>_parse_header\<close>: \<open>struct.unpack("!6H", raw_data[:12])\<close>.\<close>

definition parse_header :: "byte list \<Rightarrow> error + DNSHeader" where
  "parse_header raw =
     (case unpack_Hs 6 (slice raw 0 12) of
        Inl e \<Rightarrow> Inl e
      | Inr hs \<Rightarrow>
          Inr \<lparr>packet_id = hs ! 0, flags = hs ! 1, questions_count = hs ! 2,
               answers_count = hs ! 3, authority_count = hs ! 4, additional_count = hs ! 5\<rparr>)"

text \<open>\<open>_parse_questions\<close>: the loop over \<open>range(questions_count)\<close>; the name is read first,
  then type and class at the cursor the name left.\<close>

fun parse_questions :: "byte list \<Rightarrow> nat \<Rightarrow> nat \<Rightarrow> (DNSQuestion list) parse" where
  "parse_questions raw pos 0 = Some (Inr ([], pos))"
| "parse_questions raw pos (Suc n) =
     (case read_domain_name raw pos of
        None \<Rightarrow> None
      | Some (Inl e) \<Rightarrow> Some (Inl e)
      | Some (Inr (name, pos1)) \<Rightarrow>
          (case unpack_Hs 2 (slice raw pos1 (pos1 + 4)) of
             Inl e \<Rightarrow> Some (Inl e)
           | Inr tc \<Rightarrow>
               (case parse_questions raw (pos1 + 4) n of
                  None \<Rightarrow> None
                | Some (Inl e) \<Rightarrow> Some (Inl e)
                | Some (Inr (qs, pos2)) \<Rightarrow>
                    Some (Inr (\<lparr>q_domain = name, q_record_type = tc ! 0,
                                q_record_class = tc ! 1\<rparr> # qs, pos2)))))"

text \<open>\<open>_parse_record_section\<close>: the loop over \<open>range(count)\<close>.\<close>

fun parse_record_section :: "byte list \<Rightarrow> nat \<Rightarrow> nat \<Rightarrow> (DNSResourceRecord list) parse" where
  "parse_record_section raw pos 0 = Some (Inr ([], pos))"
| "parse_record_section raw pos (Suc n) =
     (case read_domain_name raw pos of
        None \<Rightarrow> None
      | Some (Inl e) \<Rightarrow> Some (Inl e)
      | Some (Inr (name, pos1)) \<Rightarrow>
          (case unpack_HHIH (slice raw pos1 (pos1 + 10)) of
             Inl e \<Rightarrow> Some (Inl e)
           | Inr (r_type, r_class, r_ttl, data_len) \<Rightarrow>
               (case parse_record_data raw (pos1 + 10) r_type data_len of
                  None \<Rightarrow> None
                | Some (Inl e) \<Rightarrow> Some (Inl e)
                | Some (Inr (record_data, pos2)) \<Rightarrow>
                    (case parse_record_section raw pos2 n of
                       None \<Rightarrow> None
                     | Some (Inl e) \<Rightarrow> Some (Inl e)
                     | Some (Inr (rs, pos3)) \<Rightarrow>
                         Some (Inr (\<lparr>domain = name, record_type = r_type,
                                     record_class = r_class, ttl = r_ttl,
                                     data_length = data_len, data = record_data\<rparr> # rs,
                                    pos3))))))"

text \<open>\<open>DNSPacket(raw)\<close>: \<open>__post_init__\<close> parses the header, the questions and the three
  record sections in order.\<close>

definition DNSPacket_init :: "byte list \<Rightarrow> (error + DNSPacket) option" where
  "DNSPacket_init raw =
     (case parse_header raw of
        Inl e \<Rightarrow> Some (Inl e)
      | Inr h \<Rightarrow>
          (case parse_questions raw 12 (questions_count h) of
             None \<Rightarrow> None
           | Some (Inl e) \<Rightarrow> Some (Inl e)
           | Some (Inr (qs, p1)) \<Rightarrow>
               (case parse_record_section raw p1 (answers_count h) of
                  None \<Rightarrow> None
                | Some (Inl e) \<Rightarrow> Some (Inl e)
                | Some (Inr (ans, p2)) \<Rightarrow>
                    (case parse_record_section raw p2 (authority_count h) of
                       None \<Rightarrow> None
                     | Some (Inl e) \<Rightarrow> Some (Inl e)
                     | Some (Inr (auth, p3)) \<Rightarrow>
                         (case parse_record_section raw p3 (additional_count h) of
                            None \<Rightarrow> None
                          | Some (Inl e) \<Rightarrow> Some (Inl e)
                          | Some (Inr (adds, p4)) \<Rightarrow>
                              Some (Inr \<lparr>raw_data = raw, position = p4, header = h,
                                         questions = qs, answers = ans,
                                         authority_records = auth,
                                         additional_records = adds\<rparr>))))))"

section \<open>Cache (cache_dns.py)\<close>

text \<open>
  A \<open>datetime\<close> is a number of microseconds; \<open>datetime.now()\<close> is an argument of the
  operation that reads the clock. A dictionary is an association list in insertion order.
  The value of \<open>cache_data[domain][type]\<close> is the pair of the insertion time and the
  records.
\<close>

type_synonym datetime = int
type_synonym cache_entry = "datetime \<times> DNSResourceRecord list"
type_synonym cache_map = "(string \<times> (nat \<times> cache_entry) list) list"

record DNSCache =
  cache_file :: string
  cache_data :: cache_map

text \<open>\<open>timedelta.seconds\<close>: the seconds field of the normalised difference (days, seconds
  below 86400, microseconds), not the total number of seconds.\<close>

definition timedelta_seconds :: "int \<Rightarrow> int" where
  "timedelta_seconds delta = (delta div 1000000) mod 86400"

definition add_records ::
  "DNSCache \<Rightarrow> string \<Rightarrow> nat \<Rightarrow> DNSResourceRecord list \<Rightarrow> datetime \<Rightarrow> DNSCache" where
  "add_records self domain_name query_type records now =
     (let cd1 = (if map_of (cache_data self) domain_name = None
                 then AList.update domain_name [] (cache_data self)
                 else cache_data self)
      in case map_of cd1 domain_name of
           None \<Rightarrow> self\<lparr>cache_data := cd1\<rparr>
         | Some inner \<Rightarrow>
             (if map_of inner query_type = None
              then self\<lparr>cache_data :=
                     AList.update domain_name (AList.update query_type (now, records) inner) cd1\<rparr>
              else self\<lparr>cache_data := cd1\<rparr>))"

definition records_expired :: "DNSCache \<Rightarrow> string \<Rightarrow> nat \<Rightarrow> datetime \<Rightarrow> error + bool" where
  "records_expired self dname query_type now =
     (case map_of (cache_data self) dname of
        None \<Rightarrow> Inl KeyError
      | Some inner \<Rightarrow>
          (case map_of inner query_type of
             None \<Rightarrow> Inl KeyError
           | Some (cached_time, records) \<Rightarrow>
               Inr (list_ex (\<lambda>r. int (ttl r) \<le> timedelta_seconds (now - cached_time))
                      records)))"

definition remove_expired_records :: "DNSCache \<Rightarrow> string \<Rightarrow> nat \<Rightarrow> error + DNSCache" where
  "remove_expired_records self dname query_type =
     (case map_of (cache_data self) dname of
        None \<Rightarrow> Inl KeyError
      | Some inner \<Rightarrow>
          (case map_of inner query_type of
             None \<Rightarrow> Inl KeyError
           | Some _ \<Rightarrow>
               (if AList.delete query_type inner = []
                then Inr (self\<lparr>cache_data := AList.delete dname (cache_data self)\<rparr>)
                else Inr (self\<lparr>cache_data :=
                            AList.update dname (AList.delete query_type inner)
                              (cache_data self)\<rparr>))))"

text \<open>\<open>get_records\<close> returns the records or \<open>None\<close>, and the cache as it leaves it.\<close>

definition get_records ::
  "DNSCache \<Rightarrow> string \<Rightarrow> nat \<Rightarrow> datetime \<Rightarrow>
   (error + DNSResourceRecord list option) \<times> DNSCache" where
  "get_records self domain_name query_type now =
     (case map_of (cache_data self) domain_name of
        None \<Rightarrow> (Inr None, self)
      | Some inner \<Rightarrow>
          (case map_of inner query_type of
             None \<Rightarrow> (Inr None, self)
           | Some entry \<Rightarrow>
               (case records_expired self domain_name query_type now of
                  Inl e \<Rightarrow> (Inl e, self)
                | Inr True \<Rightarrow>
                    (case remove_expired_records self domain_name query_type of
                       Inl e \<Rightarrow> (Inl e, self)
                     | Inr self' \<Rightarrow> (Inr None, self'))
                | Inr False \<Rightarrow> (Inr (Some (snd entry)), self))))"

text \<open>
  Attribute lookup on a \<open>DNSCache\<close> instance: the four attributes \<open>__init__\<close> sets and the
  methods of the class; any other name raises AttributeError.
\<close>

datatype pyobj =
    StrObj string
  | CacheObj cache_map
  | ThreadObj
  | LockObj
  | MethodObj string

definition DNSCache_methods :: "string list" where
  "DNSCache_methods =
     [''initialize_cache'', ''start_cleanup_process'', ''add_records'', ''get_records'',
      ''_run_cache_cleanup'', ''_remove_expired_records'', ''_records_expired'',
      ''save_cache'', ''shutdown'']"

definition DNSCache_getattr :: "DNSCache \<Rightarrow> string \<Rightarrow> error + pyobj" where
  "DNSCache_getattr self name =
     (if name = ''cache_file'' then Inr (StrObj (cache_file self))
      else if name = ''cache_data'' then Inr (CacheObj (cache_data self))
      else if name = ''cleanup_thread'' then Inr ThreadObj
      else if name = ''lock'' then Inr LockObj
      else if name \<in> set DNSCache_methods then Inr (MethodObj name)
      else Inl (AttributeError name))"

text \<open>
  The file system is a dictionary from paths to contents; \<open>pickle.dumps\<close> is a parameter.
  \<open>save_cache\<close> evaluates \<open>self.buffer\<close>, then \<open>open(self.path, "wb")\<close>, then writes.
\<close>

type_synonym filesystem = "(string \<times> byte list) list"

definition save_cache ::
  "(pyobj \<Rightarrow> byte list) \<Rightarrow> DNSCache \<Rightarrow> filesystem \<Rightarrow> (error + unit) \<times> filesystem" where
  "save_cache pickle_dumps self fs =
     (case DNSCache_getattr self ''buffer'' of
        Inl e \<Rightarrow> (Inl e, fs)
      | Inr buffer \<Rightarrow>
          (case DNSCache_getattr self ''path'' of
             Inl e \<Rightarrow> (Inl e, fs)
           | Inr (StrObj path) \<Rightarrow> (Inr (), AList.update path (pickle_dumps buffer) fs)
           | Inr _ \<Rightarrow> (Inl TypeError, fs)))"

text \<open>\<open>shutdown\<close>: joins the sweeper thread, then saves.\<close>

definition shutdown ::
  "(pyobj \<Rightarrow> byte list) \<Rightarrow> DNSCache \<Rightarrow> filesystem \<Rightarrow> (error + unit) \<times> filesystem" where
  "shutdown pickle_dumps self fs = save_cache pickle_dumps self fs"

section \<open>Resolver (resolver_dns.py)\<close>

record DNSResolver =
  request_size :: nat
  root_server_ip :: string
  root_server_port :: nat

text \<open>
  The network: what a server at an address and port answers to a request datagram, or the
  socket error (a timeout among them). \<open>recv(request_size)\<close> keeps the first
  \<open>request_size\<close> bytes of the datagram.
\<close>

type_synonym upstream = "string \<Rightarrow> nat \<Rightarrow> byte list \<Rightarrow> error + byte list"

definition query_dns_server ::
  "DNSResolver \<Rightarrow> upstream \<Rightarrow> byte list \<Rightarrow> string \<Rightarrow> nat \<Rightarrow> error + byte list" where
  "query_dns_server self net request server_ip server_port =
     (case net server_ip server_port request of
        Inl e \<Rightarrow> Inl e
      | Inr reply \<Rightarrow> Inr (take (request_size self) reply))"

text \<open>
  \<open>recursive_resolve\<close>, \<open>_handle_authoritative_records\<close> and \<open>_resolve_name_to_ips\<close> call
  each other with no depth argument and no counter. What bounds the descent is the
  interpreter: it limits the depth of the call stack (\<open>sys.getrecursionlimit()\<close>) and
  raises RecursionError in the call that would exceed it. The first argument is the number
  of nested calls of \<open>recursive_resolve\<close> that this limit still admits; with none left the
  call raises RecursionError, and nothing in the resolver catches it. A result is a raised
  exception, a packet, or Python's \<open>None\<close>; the outer \<open>None\<close> is a decode of the reply that
  does not return.
\<close>

fun recursive_resolve ::
  "nat \<Rightarrow> DNSResolver \<Rightarrow> upstream \<Rightarrow> byte list \<Rightarrow> string option \<Rightarrow> nat \<Rightarrow>
   (error + DNSPacket option) option"
and handle_authoritative_records ::
  "nat \<Rightarrow> DNSResolver \<Rightarrow> upstream \<Rightarrow> byte list \<Rightarrow> DNSPacket \<Rightarrow> DNSResourceRecord list \<Rightarrow>
   (error + DNSPacket option) option"
and resolve_name_to_ips ::
  "nat \<Rightarrow> DNSResolver \<Rightarrow> upstream \<Rightarrow> nat \<Rightarrow> string \<Rightarrow> (error + string list option) option"
where
  "recursive_resolve 0 self net dns_query target_server_ip target_server_port =
     Some (Inl RecursionError)"
| "recursive_resolve (Suc limit) self net dns_query target_server_ip target_server_port =
     (case query_dns_server self net dns_query
             (case target_server_ip of
                None \<Rightarrow> root_server_ip self
              | Some ip \<Rightarrow> if ip = [] then root_server_ip self else ip)
             (if target_server_port = 0 then root_server_port self else target_server_port) of
        Inl e \<Rightarrow> Some (Inl e)
      | Inr response \<Rightarrow>
          (case DNSPacket_init response of
             None \<Rightarrow> None
           | Some (Inl e) \<Rightarrow> Some (Inl e)
           | Some (Inr response_packet) \<Rightarrow>
               (if 0 < answers_count (header response_packet)
                then Some (Inr (Some response_packet))
                else if 0 < authority_count (header response_packet)
                then handle_authoritative_records limit self net dns_query response_packet
                       (authority_records response_packet)
                else Some (Inr None))))"
| "handle_authoritative_records limit self net dns_query response_packet [] = Some (Inr None)"
| "handle_authoritative_records limit self net dns_query response_packet (auth_record # rest) =
     (case find (\<lambda>r. record_type r = DNSRecordType_A) (additional_records response_packet) of
        Some additional_record \<Rightarrow>
          recursive_resolve limit self net dns_query (Some (data additional_record)) 53
      | None \<Rightarrow>
          (case resolve_name_to_ips limit self net (packet_id (header response_packet))
                  (data auth_record) of
             None \<Rightarrow> None
           | Some (Inl e) \<Rightarrow> Some (Inl e)
           | Some (Inr None) \<Rightarrow>
               handle_authoritative_records limit self net dns_query response_packet rest
           | Some (Inr (Some resolved_ips)) \<Rightarrow>
               (case resolved_ips of
                  [] \<Rightarrow> handle_authoritative_records limit self net dns_query response_packet rest
                | ip # _ \<Rightarrow> recursive_resolve limit self net dns_query (Some ip) 53)))"
| "resolve_name_to_ips limit self net query_id domain_name =
     (case build_query_packet query_id domain_name DNSRecordType_A DNSClass_IN of
        Inl e \<Rightarrow> Some (Inl e)
      | Inr query \<Rightarrow>
          (case recursive_resolve limit self net query None 53 of
             None \<Rightarrow> None
           | Some (Inl e) \<Rightarrow> Some (Inl e)
           | Some (Inr None) \<Rightarrow> Some (Inr None)
           | Some (Inr (Some response)) \<Rightarrow> Some (Inr (Some (map data (answers response))))))"

section \<open>Server (server.py)\<close>

record Server =
  handle_flag :: bool
  socket_open :: bool
  cacher :: DNSCache
  resolver :: DNSResolver

text \<open>
  \<open>_process_question\<close> returns whatever its \<open>return\<close> statements produce: a list of
  records on the resolver path, and \<open>cached_records[1]\<close>, one element of the cached list,
  on the cache path. The clock is read once in \<open>get_records\<close> (\<open>now\<close>) and once in
  \<open>add_records\<close> (\<open>later\<close>). The \<open>try\<close> around the resolver turns every exception,
  RecursionError among them, into the empty list. The first argument is the number of
  nested calls of \<open>recursive_resolve\<close> the interpreter admits at this point.
\<close>

datatype answer_value =
    RecordList "DNSResourceRecord list"
  | SingleRecord DNSResourceRecord

definition process_question ::
  "nat \<Rightarrow> upstream \<Rightarrow> Server \<Rightarrow> datetime \<Rightarrow> datetime \<Rightarrow> DNSQuestion \<Rightarrow> nat \<Rightarrow>
   ((error + answer_value) \<times> Server) option" where
  "process_question limit net self now later question pid =
     (case get_records (cacher self) (q_domain question) (q_record_type question) now of
        (Inl e, c1) \<Rightarrow> Some (Inl e, self\<lparr>cacher := c1\<rparr>)
      | (Inr (Some cached_records), c1) \<Rightarrow>
          (if 1 < length cached_records
           then Some (Inr (SingleRecord (cached_records ! 1)), self\<lparr>cacher := c1\<rparr>)
           else Some (Inl IndexError, self\<lparr>cacher := c1\<rparr>))
      | (Inr None, c1) \<Rightarrow>
          (case build_query_packet pid (q_domain question) (q_record_type question)
                  (q_record_class question) of
             Inl e \<Rightarrow> Some (Inl e, self\<lparr>cacher := c1\<rparr>)
           | Inr q_request \<Rightarrow>
               (case recursive_resolve limit (resolver self) net q_request None 53 of
                  None \<Rightarrow> None
                | Some (Inl e) \<Rightarrow> Some (Inr (RecordList []), self\<lparr>cacher := c1\<rparr>)
                | Some (Inr None) \<Rightarrow> Some (Inr (RecordList []), self\<lparr>cacher := c1\<rparr>)
                | Some (Inr (Some answer)) \<Rightarrow>
                    (if answers answer \<noteq> []
                     then Some (Inr (RecordList (answers answer)),
                                self\<lparr>cacher := add_records c1 (q_domain question)
                                                  (q_record_type question) (answers answer)
                                                  later\<rparr>)
                     else Some (Inr (RecordList []), self\<lparr>cacher := c1\<rparr>)))))"

text \<open>
  \<open>_close\<close>: clears the flag, closes the socket, then \<open>self._cacher.save()\<close> and
  \<open>self._cacher.close()\<close>. Calling an attribute that was found is the parameter \<open>call\<close>.
\<close>

definition Server_close ::
  "(pyobj \<Rightarrow> DNSCache \<Rightarrow> filesystem \<Rightarrow> (error + unit) \<times> filesystem) \<Rightarrow> Server \<Rightarrow> filesystem \<Rightarrow>
   (error + unit) \<times> Server \<times> filesystem" where
  "Server_close call self fs =
     (let s1 = self\<lparr>handle_flag := False, socket_open := False\<rparr> in
      case DNSCache_getattr (cacher s1) ''save'' of
        Inl e \<Rightarrow> (Inl e, s1, fs)
      | Inr save \<Rightarrow>
          (case call save (cacher s1) fs of
             (Inl e, fs1) \<Rightarrow> (Inl e, s1, fs1)
           | (Inr _, fs1) \<Rightarrow>
               (case DNSCache_getattr (cacher s1) ''close'' of
                  Inl e \<Rightarrow> (Inl e, s1, fs1)
                | Inr close \<Rightarrow>
                    (case call close (cacher s1) fs1 of
                       (Inl e, fs2) \<Rightarrow> (Inl e, s1, fs2)
                     | (Inr _, fs2) \<Rightarrow> (Inr (), s1, fs2)))))"

section \<open>Concrete inputs\<close>

text \<open>A cache holding one fresh record set, one holding two records, and one whose record
  has a time-to-live of two days; all inserted at time 0.\<close>

definition example_record :: DNSResourceRecord where
  "example_record = \<lparr>domain = ''example.com'', record_type = 1, record_class = 1,
     ttl = 3600, data_length = 4, data = ''93.184.216.34''\<rparr>"

definition second_record :: DNSResourceRecord where
  "second_record = \<lparr>domain = ''example.com'', record_type = 1, record_class = 1,
     ttl = 3600, data_length = 4, data = ''93.184.216.35''\<rparr>"

definition long_lived_record :: DNSResourceRecord where
  "long_lived_record = \<lparr>domain = ''example.com'', record_type = 1, record_class = 1,
     ttl = 172800, data_length = 4, data = ''93.184.216.34''\<rparr>"

definition example_cache :: DNSCache where
  "example_cache = \<lparr>cache_file = ''cache.bin'',
     cache_data = [(''example.com'', [(1, (0, [example_record]))])]\<rparr>"

definition two_record_cache :: DNSCache where
  "two_record_cache = \<lparr>cache_file = ''cache.bin'',
     cache_data = [(''example.com'', [(1, (0, [example_record, second_record]))])]\<rparr>"

definition long_lived_cache :: DNSCache where
  "long_lived_cache = \<lparr>cache_file = ''cache.bin'',
     cache_data = [(''example.com'', [(1, (0, [long_lived_record]))])]\<rparr>"


definition example_resolver :: DNSResolver where
  "example_resolver =
     \<lparr>request_size = 512, root_server_ip = ''198.41.0.4'', root_server_port = 53\<rparr>"

definition example_server :: "DNSCache \<Rightarrow> Server" where
  "example_server c =
     \<lparr>handle_flag = True, socket_open = True, cacher = c, resolver = example_resolver\<rparr>"

definition example_question :: DNSQuestion where
  "example_question = \<lparr>q_domain = ''example.com'', q_record_type = 1, q_record_class = 1\<rparr>"


text \<open>A question of type 15 (MX) and class 3; answers of class 3, of type A with data
  length 3, of type AAAA with data length 2, and of type 15.\<close>

definition mx_query :: "byte list" where
  "mx_query = [0x12, 0x34, 0x01, 0x00, 0, 1, 0, 0, 0, 0, 0, 0] @ [1, 0x61, 0] @ [0, 15, 0, 3]"

definition chaos_answer :: "byte list" where
  "chaos_answer = [0x12, 0x34, 0x80, 0x00, 0, 0, 0, 1, 0, 0, 0, 0]
     @ [1, 0x61, 0] @ [0, 1, 0, 3, 0, 0, 0, 60, 0, 4] @ [10, 0, 0, 1]"

definition short_a_answer :: "byte list" where
  "short_a_answer = [0x12, 0x34, 0x80, 0x00, 0, 0, 0, 1, 0, 0, 0, 0]
     @ [1, 0x61, 0] @ [0, 1, 0, 1, 0, 0, 0, 60, 0, 3] @ [10, 0, 1]"

definition short_aaaa_answer :: "byte list" where
  "short_aaaa_answer = [0x12, 0x34, 0x80, 0x00, 0, 0, 0, 1, 0, 0, 0, 0]
     @ [1, 0x61, 0] @ [0, 28, 0, 1, 0, 0, 0, 60, 0, 2] @ [0x00, 0x2a]"

definition mx_answer :: "byte list" where
  "mx_answer = [0x12, 0x34, 0x80, 0x00, 0, 0, 0, 1, 0, 0, 0, 0]
     @ [1, 0x61, 0] @ [0, 15, 0, 1, 0, 0, 0, 60, 0, 4] @ [0, 10, 1, 0x62]"

text \<open>A reply with one A record in the answer section and one record of type 15 in the
  additional section.\<close>

definition mx_additional :: "byte list" where
  "mx_additional = [0x12, 0x34, 0x80, 0x00, 0, 0, 0, 1, 0, 0, 0, 1]
     @ [1, 0x61, 0] @ [0, 1, 0, 1, 0, 0, 0, 60, 0, 4] @ [10, 0, 0, 1]
     @ [1, 0x61, 0] @ [0, 15, 0, 1, 0, 0, 0, 60, 0, 4] @ [0, 10, 1, 0x62]"

text \<open>A question whose name is a pointer at offset 12 to offset 14, behind itself; and one
  whose name is a pointer at offset 12 to offset 12.\<close>

definition forward_pointer_name :: "byte list" where
  "forward_pointer_name =
     [0x12, 0x34, 0x01, 0x00, 0, 1, 0, 0, 0, 0, 0, 0] @ [0xC0, 14, 1, 0x61, 0, 1]"

definition self_pointer_name :: "byte list" where
  "self_pointer_name =
     [0x12, 0x34, 0x01, 0x00, 0, 1, 0, 0, 0, 0, 0, 0] @ [0xC0, 12, 0, 1, 0, 1]"







section \<open>The wire form of a name\<close>

text \<open>The bytes of an ASCII label, the wire form of a list of labels (without the final
  zero byte), and the labels that are ASCII.\<close>

definition label_bytes :: "string \<Rightarrow> byte list" where
  "label_bytes l = map (\<lambda>c. of_nat (of_char c)) l"

definition wire_labels :: "string list \<Rightarrow> byte list" where
  "wire_labels ls = concat (map (\<lambda>l. of_nat (length l) # label_bytes l) ls)"

definition is_ascii :: "string \<Rightarrow> bool" where
  "is_ascii l = list_all (\<lambda>c. (of_char c :: nat) < 128) l"

section \<open>The error response\<close>

lemma error_response_of_malformed_request:
  "create_error_response (slice [0xAB, 0xCD, 0x00, 0x00] 0 2) =
     Inr [0xAB, 0xCD, 0x84, 0x00, 0, 0, 0, 0, 0, 0, 0, 0]"
  by (simp add: create_error_response_def pack_H_def slice_def)

lemma error_response_of_empty_datagram:
  "create_error_response (slice [] 0 2) = Inr [0x84, 0x00, 0, 0, 0, 0, 0, 0, 0, 0]"
  by (simp add: create_error_response_def pack_H_def slice_def)

text \<open>
  C1. The error response built from the first two bytes of a request is those bytes
  followed by the flags word and four zero counts. The flags word the code emits is the
  byte pair \<open>0x84 0x00\<close>, that is \<open>0x8400\<close> (bit 15 and bit 10), not \<open>0x8004\<close>: the code
  shifts the response code 4 by eight bits. The response has twelve bytes only when the
  datagram has at least two.
\<close>

theorem create_error_response_flags_are_0x8400:
  "create_error_response (slice request 0 2) =
     Inr (take 2 request @ [0x84, 0x00, 0, 0, 0, 0, 0, 0, 0, 0])"
  by (simp add: create_error_response_def pack_H_def slice_def)

section \<open>The cache\<close>

lemma elapsed_seconds_below_a_day: "timedelta_seconds delta < 86400"
  unfolding timedelta_seconds_def by (rule pos_mod_bound) simp

lemma elapsed_seconds_le:
  assumes "0 \<le> delta"
  shows "timedelta_seconds delta \<le> delta div 1000000"
proof -
  have "0 \<le> delta div 1000000" using assms by simp
  then show ?thesis
    unfolding timedelta_seconds_def by (rule zmod_le_nonneg_dividend)
qed

lemma elapsed_seconds_same_day:
  assumes "0 \<le> delta" and "delta < 86400 * 1000000"
  shows "timedelta_seconds delta = delta div 1000000"
proof -
  have "0 \<le> delta div 1000000" using assms by simp
  moreover have "delta div 1000000 < 86400" using assms by simp
  ultimately show ?thesis by (simp add: timedelta_seconds_def)
qed

text \<open>An entry no older than the smallest time-to-live is returned, and the cache is left
  as it was.\<close>

lemma get_records_fresh:
  assumes "map_of (cache_data self) dname = Some inner"
    and "map_of inner query_type = Some (cached_time, records)"
    and "cached_time \<le> now"
    and "\<forall>r \<in> set records. now - cached_time < int (ttl r) * 1000000"
  shows "get_records self dname query_type now = (Inr (Some records), self)"
proof -
  have "\<not> int (ttl r) \<le> timedelta_seconds (now - cached_time)" if "r \<in> set records" for r
  proof -
    have "now - cached_time < int (ttl r) * 1000000" using assms(4) that by blast
    then have "(now - cached_time) div 1000000 < int (ttl r)" by simp
    moreover have "timedelta_seconds (now - cached_time) \<le> (now - cached_time) div 1000000"
      using assms(3) by (simp add: elapsed_seconds_le)
    ultimately show ?thesis by simp
  qed
  then have "\<not> list_ex (\<lambda>r. int (ttl r) \<le> timedelta_seconds (now - cached_time)) records"
    by (simp add: list_ex_iff)
  then show ?thesis
    using assms(1,2) by (simp add: get_records_def records_expired_def)
qed

text \<open>An entry whose age has reached a time-to-live, and is below one day, is a miss and is
  gone from the map afterwards.\<close>

lemma get_records_stale_same_day:
  assumes "map_of (cache_data self) dname = Some inner"
    and "map_of inner query_type = Some (cached_time, records)"
    and "cached_time \<le> now" and "now - cached_time < 86400 * 1000000"
    and "r \<in> set records" and "int (ttl r) * 1000000 \<le> now - cached_time"
  shows "fst (get_records self dname query_type now) = Inr None \<and>
         (case map_of (cache_data (snd (get_records self dname query_type now))) dname of
            None \<Rightarrow> True
          | Some inner' \<Rightarrow> map_of inner' query_type = None)"
proof -
  have "timedelta_seconds (now - cached_time) = (now - cached_time) div 1000000"
    using assms(3,4) by (simp add: elapsed_seconds_same_day)
  moreover have "int (ttl r) \<le> (now - cached_time) div 1000000"
    using assms(6) by simp
  ultimately have "list_ex (\<lambda>r. int (ttl r) \<le> timedelta_seconds (now - cached_time)) records"
    using assms(5) unfolding list_ex_iff by auto
  then have ex: "records_expired self dname query_type now = Inr True"
    using assms(1,2) by (simp add: records_expired_def)
  show ?thesis
    using assms(1,2)
    by (simp add: get_records_def ex remove_expired_records_def delete_conv update_conv)
qed

text \<open>
  C6. An entry inserted at time \<open>t\<close> is returned while \<open>now - t\<close> is below every
  time-to-live (lemma \<open>get_records_fresh\<close>), but it is not always a miss once \<open>now - t\<close>
  reaches the smallest one: the code compares the time-to-live with the seconds field of
  the difference, which is below 86400. The entry below, with a time-to-live of 172800
  seconds, is returned at every time, also 172800 seconds after its insertion, and stays
  in the map.
\<close>

theorem get_records_ignores_whole_days:
  "get_records long_lived_cache ''example.com'' 1 now =
     (Inr (Some [long_lived_record]), long_lived_cache)"
proof -
  have "timedelta_seconds (now - 0) < 172800"
    using elapsed_seconds_below_a_day [of "now - 0"] by simp
  then show ?thesis
    by (simp add: get_records_def records_expired_def long_lived_cache_def
        long_lived_record_def)
qed

lemma get_records_at_two_days:
  "get_records long_lived_cache ''example.com'' 1 (172800 * 1000000) =
     (Inr (Some [long_lived_record]), long_lived_cache)"
  by (simp add: get_records_def records_expired_def long_lived_cache_def
      long_lived_record_def timedelta_seconds_def)

lemma get_records_one_day_later:
  "get_records example_cache ''example.com'' 1 ((86400 + 10) * 1000000) =
     (Inr (Some [example_record]), example_cache)"
  by (simp add: get_records_def records_expired_def example_cache_def
      example_record_def timedelta_seconds_def)

text \<open>
  C9. When the cache already holds an entry for the domain and the type, \<open>add_records\<close>
  changes nothing: the cache after the call is the cache before it, so the stored time and
  records are those of the first insertion and no other slot has changed.
\<close>

theorem add_records_existing_noop:
  assumes "map_of (cache_data self) domain_name = Some inner"
    and "map_of inner query_type = Some entry"
  shows "add_records self domain_name query_type records now = self"
  using assms by (simp add: add_records_def)

theorem add_records_existing_noop_witness:
  "add_records example_cache ''example.com'' 1 [second_record] 5000000 = example_cache"
  by (rule add_records_existing_noop
        [where inner = "[(1, (0, [example_record]))]" and entry = "(0, [example_record])"])
     (simp_all add: example_cache_def)

text \<open>
  C4. \<open>save_cache\<close> serialises nothing: reading \<open>self.buffer\<close> raises AttributeError before
  any file is opened, for every cache, and the exception reaches the caller. \<open>_close\<close> of
  the server raises AttributeError on \<open>self._cacher.save\<close> and leaves the files as they
  were.
\<close>

theorem save_cache_raises_attribute_error:
  "save_cache pickle_dumps self fs = (Inl (AttributeError ''buffer''), fs) \<and>
   shutdown pickle_dumps self fs = (Inl (AttributeError ''buffer''), fs) \<and>
   Server_close call srv fs =
     (Inl (AttributeError ''save''), srv\<lparr>handle_flag := False, socket_open := False\<rparr>, fs)"
  by (simp add: save_cache_def shutdown_def Server_close_def DNSCache_getattr_def
      DNSCache_methods_def)

section \<open>The server on a cache hit\<close>

lemma example_cache_hit:
  "get_records (cacher (example_server example_cache)) (q_domain example_question)
     (q_record_type example_question) 1000000 = (Inr (Some [example_record]), example_cache)"
  by (simp add: get_records_def records_expired_def example_cache_def example_server_def
      example_question_def example_record_def timedelta_seconds_def)

lemma two_record_cache_hit:
  "get_records (cacher (example_server two_record_cache)) (q_domain example_question)
     (q_record_type example_question) 1000000 =
     (Inr (Some [example_record, second_record]), two_record_cache)"
  by (simp add: get_records_def records_expired_def two_record_cache_def example_server_def
      example_question_def example_record_def second_record_def timedelta_seconds_def)

text \<open>
  C3. On a fresh cache entry \<open>_process_question\<close> does not yield the cached record
  sequence: it returns element 1 of it. With one cached record, one second after its
  insertion, the call raises IndexError; with two cached records it returns the second
  record alone, not a list. The upstream is not asked in either case.
\<close>

theorem process_question_cache_hit_indexes_record_list:
  "process_question limit net (example_server example_cache) 1000000 later example_question pid
     = Some (Inl IndexError, example_server example_cache) \<and>
   process_question limit net (example_server two_record_cache) 1000000 later example_question pid
     = Some (Inr (SingleRecord second_record), example_server two_record_cache)"
proof -
  have one: "process_question limit net (example_server example_cache) 1000000 later
               example_question pid = Some (Inl IndexError, example_server example_cache)"
    unfolding process_question_def example_cache_hit by (simp add: example_server_def)
  have two: "process_question limit net (example_server two_record_cache) 1000000 later
               example_question pid
             = Some (Inr (SingleRecord second_record), example_server two_record_cache)"
    unfolding process_question_def two_record_cache_hit by (simp add: example_server_def)
  from one two show ?thesis by simp
qed

section \<open>Evaluating the decoder on a concrete packet\<close>

lemma replicate_numeral: "replicate (numeral k) x = x # replicate (pred_numeral k) x"
  by (simp add: numeral_eq_Suc)

lemmas decoder_eval =
  DNSPacket_init_def parse_header_def unpack_Hs_def unpack_HHIH_def unpack_Bs_def slice_def
  be_nat_def read_domain_name_def read_loop.simps pointer_offset_def decode_ascii_def
  parse_record_data_def DNSRecordType_A_def DNSRecordType_NS_def DNSRecordType_PTR_def
  DNSRecordType_AAAA_def char_of_eq_iff digit_char_def hex04_def replicate_numeral

section \<open>Names: encoding, then reading\<close>

lemma split_acc_nonempty: "split_acc acc s \<noteq> []"
  by (induction s arbitrary: acc) auto

lemma join_Cons: "xs \<noteq> [] \<Longrightarrow> join sep (p # xs) = p @ sep @ join sep xs"
  by (cases xs) auto

lemma join_split_acc: "join ''.'' (split_acc acc s) = acc @ s"
  by (induction s arbitrary: acc) (auto simp: join_Cons split_acc_nonempty)

lemma join_split_dot: "join ''.'' (split_dot s) = s"
  by (simp add: split_dot_def join_split_acc)

lemma str_encode_ascii: "is_ascii l \<Longrightarrow> str_encode l = label_bytes l"
  by (induction l) (auto simp: is_ascii_def str_encode_def label_bytes_def encode_char_def)

lemma pack_s_exact: "length bs = n \<Longrightarrow> pack_s n bs = bs"
  by (simp add: pack_s_def)

lemma encode_labels_wire:
  "\<forall>l \<in> set ls. length l \<le> 63 \<and> is_ascii l \<Longrightarrow>
   encode_labels ls (t, enc) = Inr (t + length (wire_labels ls), enc @ wire_labels ls)"
proof (induction ls arbitrary: t enc)
  case Nil
  then show ?case by (simp add: wire_labels_def)
next
  case (Cons l ls)
  then have l: "length l \<le> 63" "is_ascii l"
    and ls: "\<forall>l \<in> set ls. length l \<le> 63 \<and> is_ascii l"
    by simp_all
  have pk: "pack_B (length l) = Inr [of_nat (length l)]"
    using l by (simp add: pack_B_def)
  have ps: "pack_s (length l) (str_encode l) = label_bytes l"
    using l by (simp add: str_encode_ascii pack_s_exact label_bytes_def)
  have w: "wire_labels (l # ls) = (of_nat (length l) # label_bytes l) @ wire_labels ls"
    by (simp add: wire_labels_def)
  show ?case
    by (simp add: pk ps Cons.IH[OF ls] w label_bytes_def Let_def)
qed

lemma len_byte_not_pointer:
  assumes "n \<le> 63"
  shows "(of_nat n :: byte) AND 0xC0 \<noteq> 0xC0"
proof
  assume eq: "(of_nat n :: byte) AND 0xC0 = 0xC0"
  have "(of_nat n :: byte) AND 0xC0 \<le> of_nat n" by (rule word_and_le2)
  then have "(0xC0 :: byte) \<le> of_nat n" using eq by simp
  then have "unat (0xC0 :: byte) \<le> unat (of_nat n :: byte)" by (simp add: word_le_nat_alt)
  moreover have "unat (of_nat n :: byte) = n" using assms by (simp add: unat_of_nat)
  ultimately show False using assms by simp
qed

lemma unat_len_byte: "n \<le> 63 \<Longrightarrow> unat (of_nat n :: byte) = n"
  by (simp add: unat_of_nat)

text \<open>One turn of the loop on a label.\<close>

lemma read_loop_label_step:
  assumes "current_pos < length raw" and "raw ! current_pos = b" and "b AND 0xC0 \<noteq> 0xC0"
    and "unat b \<le> 63" and "b \<noteq> 0" and "current_pos + 1 + unat b \<le> length raw"
  shows "read_loop raw current_pos co parts =
         read_loop raw (current_pos + 1 + unat b) co
           (parts @ [slice raw (current_pos + 1) (current_pos + 1 + unat b)])"
  using assms by (subst read_loop.simps) simp

text \<open>The loop on the wire form of labels of 1 to 63 characters, anywhere in a packet.\<close>

lemma read_loop_wire:
  "\<forall>l \<in> set ls. 1 \<le> length l \<and> length l \<le> 63 \<Longrightarrow>
   read_loop (pre @ wire_labels ls @ 0 # rest) (length pre) co parts =
     Some (Inr (parts @ map label_bytes ls,
                (case co of None \<Rightarrow> length pre + length (wire_labels ls) + 1 | Some c \<Rightarrow> c)))"
proof (induction ls arbitrary: pre parts)
  case Nil
  show ?case
    by (subst read_loop.simps) (simp add: wire_labels_def nth_append split: option.splits)
next
  case (Cons l ls)
  then have l: "1 \<le> length l" "length l \<le> 63"
    and ls: "\<forall>l \<in> set ls. 1 \<le> length l \<and> length l \<le> 63"
    by simp_all
  let ?n = "length l"
  let ?b = "of_nat ?n :: byte"
  let ?raw = "pre @ wire_labels (l # ls) @ 0 # rest"
  let ?pre' = "pre @ ?b # label_bytes l"
  have raw: "?raw = ?pre' @ wire_labels ls @ 0 # rest"
    by (simp add: wire_labels_def)
  have at: "?raw ! length pre = ?b"
    by (simp add: wire_labels_def nth_append)
  have un: "unat ?b = ?n" using l by (simp add: unat_len_byte)
  have np: "?b AND 0xC0 \<noteq> 0xC0" using l by (simp add: len_byte_not_pointer)
  have nz: "?b \<noteq> 0" using un l by (metis One_nat_def not_one_le_zero unat_0)
  have len: "length ?raw = length pre + 1 + ?n + length (wire_labels ls) + 1 + length rest"
    by (simp add: raw label_bytes_def)
  have sl: "slice ?raw (length pre + 1) (length pre + 1 + ?n) = label_bytes l"
    by (simp add: slice_def wire_labels_def label_bytes_def)
  have lp: "length ?pre' = length pre + 1 + ?n"
    by (simp add: label_bytes_def)
  have "read_loop ?raw (length pre) co parts =
        read_loop ?raw (length pre + 1 + unat ?b) co
          (parts @ [slice ?raw (length pre + 1) (length pre + 1 + unat ?b)])"
    by (rule read_loop_label_step[where b = ?b]) (use at un np nz len l in simp_all)
  then have step: "read_loop ?raw (length pre) co parts =
              read_loop ?raw (length pre + 1 + ?n) co (parts @ [label_bytes l])"
    by (simp only: un sl)
  have "read_loop ?raw (length pre + 1 + ?n) co (parts @ [label_bytes l]) =
        Some (Inr ((parts @ [label_bytes l]) @ map label_bytes ls,
                (case co of None \<Rightarrow> length ?pre' + length (wire_labels ls) + 1 | Some c \<Rightarrow> c)))"
    unfolding raw lp[symmetric] by (rule Cons.IH[OF ls])
  then show ?case
    unfolding step by (simp add: lp wire_labels_def label_bytes_def split: option.splits)
qed

lemma decode_ascii_label: "is_ascii l \<Longrightarrow> decode_ascii (label_bytes l) = Some l"
  by (induction l)
     (auto simp: is_ascii_def decode_ascii_def label_bytes_def unat_of_nat list_all_iff)

lemma decode_parts_labels:
  "\<forall>l \<in> set ls. is_ascii l \<Longrightarrow> decode_parts (map label_bytes ls) = Some ls"
  by (induction ls) (auto simp: decode_ascii_label)

text \<open>
  C10. For a domain string whose dot-separated labels have 1 to 63 characters each, all
  ASCII, \<open>encode_domain_name\<close> succeeds, and \<open>_read_domain_name\<close> at offset 0 of a packet
  that starts with the encoded bytes returns the original string (and leaves the cursor
  at the encoded length): the read terminates and is the inverse of the encoding.
\<close>

theorem encode_then_read_domain_name:
  assumes "\<forall>l \<in> set (split_dot d). 1 \<le> length l \<and> length l \<le> 63 \<and> is_ascii l"
  shows "\<exists>n bs. encode_domain_name d = Inr (n, bs) \<and>
           read_domain_name (bs @ rest) 0 = Some (Inr (d, n))"
proof -
  let ?ls = "split_dot d"
  have enc: "encode_domain_name d = Inr (length (wire_labels ?ls) + 1, wire_labels ?ls @ [0])"
    using assms by (simp add: encode_domain_name_def encode_labels_wire)
  have "read_loop ([] @ wire_labels ?ls @ 0 # rest) (length ([]::byte list)) None [] =
        Some (Inr ([] @ map label_bytes ?ls,
                   length ([]::byte list) + length (wire_labels ?ls) + 1))"
    using assms read_loop_wire[of ?ls "[]" rest None "[]"] by simp
  then have rl: "read_loop ((wire_labels ?ls @ [0]) @ rest) 0 None [] =
        Some (Inr (map label_bytes ?ls, length (wire_labels ?ls) + 1))"
    by simp
  have dp: "decode_parts (map label_bytes ?ls) = Some ?ls"
    using assms by (simp add: decode_parts_labels)
  have "read_domain_name ((wire_labels ?ls @ [0]) @ rest) 0 =
          Some (Inr (d, length (wire_labels ?ls) + 1))"
    unfolding read_domain_name_def rl by (simp add: dp join_split_dot)
  with enc show ?thesis by blast
qed

theorem encode_then_read_domain_name_witness:
  "\<exists>n bs. encode_domain_name ''example.com'' = Inr (n, bs) \<and>
           read_domain_name (bs @ [0, 1, 0, 1]) 0 = Some (Inr (''example.com'', n))"
  by (rule encode_then_read_domain_name) (simp add: split_dot_def is_ascii_def)

lemma encode_example:
  "encode_domain_name ''example.com'' =
     Inr (13, [7, 101, 120, 97, 109, 112, 108, 101, 3, 99, 111, 109, 0])"
  by (simp add: encode_domain_name_def split_dot_def pack_B_def pack_s_def str_encode_def
      encode_char_def)

section \<open>Compression pointers\<close>

lemma forward_pointer_parse:
  "DNSPacket_init forward_pointer_name =
     Some (Inr \<lparr>raw_data = forward_pointer_name, position = 18,
       header = \<lparr>packet_id = 0x1234, flags = 0x100, questions_count = 1, answers_count = 0,
                  authority_count = 0, additional_count = 0\<rparr>,
       questions = [\<lparr>q_domain = ''a'', q_record_type = 353, q_record_class = 1\<rparr>],
       answers = [], authority_records = [], additional_records = []\<rparr>)"
  by (simp add: forward_pointer_name_def decoder_eval)

lemma forward_pointer_read:
  "read_domain_name forward_pointer_name 12 = Some (Inr (''a'', 14))"
  by (simp add: forward_pointer_name_def decoder_eval)

lemma forward_pointer_target:
  "pointer_offset (forward_pointer_name ! 12) (forward_pointer_name ! 13) = 14"
  by (simp add: forward_pointer_name_def pointer_offset_def)

lemma self_pointer_facts:
  "pointer_offset (self_pointer_name ! 12) (self_pointer_name ! 13) = 12"
  "(self_pointer_name ! 12) AND 0xC0 = 0xC0"
  "length self_pointer_name = 18"
  by (simp_all add: self_pointer_name_def pointer_offset_def)

lemma self_pointer_loops_aux:
  "read_loop raw pos co parts = Some y \<Longrightarrow>
   raw = self_pointer_name \<longrightarrow> pos = 12 \<longrightarrow> False"
  apply (erule read_loop.raw_induct[rotated 1])
  apply (clarsimp simp: self_pointer_facts)
  apply blast
  done

text \<open>A pointer to itself: the read does not return.\<close>

lemma self_pointer_never_returns: "read_domain_name self_pointer_name 12 = None"
proof -
  have "read_loop self_pointer_name 12 None [] = None"
    using self_pointer_loops_aux[of self_pointer_name 12 None "[]"]
    by (cases "read_loop self_pointer_name 12 None []") auto
  then show ?thesis by (simp add: read_domain_name_def)
qed

text \<open>
  C5. The decoder does not compare a pointer's target with the current position. At a
  length octet with both top bits set, followed by one more byte in the packet, the
  pointer is followed when its 14-bit target is below the length of the packet, whether
  the target lies before, at or behind the pointer, and the packet fails with ValueError
  when the target is not below the length of the packet.
\<close>

theorem pointer_followed_iff_target_inside_packet:
  assumes "current_pos + 1 < length raw" and "(raw ! current_pos) AND 0xC0 = 0xC0"
  shows "read_loop raw current_pos co parts =
     (if length raw \<le> pointer_offset (raw ! current_pos) (raw ! (current_pos + 1))
      then Some (Inl (ValueError ''Invalid compression offset''))
      else read_loop raw (pointer_offset (raw ! current_pos) (raw ! (current_pos + 1)))
             (Some (case co of None \<Rightarrow> current_pos + 2 | Some c \<Rightarrow> c)) parts)"
  using assms by (subst read_loop.simps) (simp split: option.splits)

theorem pointer_followed_iff_target_inside_packet_witness:
  "12 + 1 < length forward_pointer_name \<and> (forward_pointer_name ! 12) AND 0xC0 = 0xC0 \<and>
   read_loop forward_pointer_name 12 None [] = read_loop forward_pointer_name 14 (Some 14) []"
proof -
  have h1: "12 + 1 < length forward_pointer_name" by (simp add: forward_pointer_name_def)
  have h2: "(forward_pointer_name ! 12) AND 0xC0 = 0xC0" by (simp add: forward_pointer_name_def)
  have po: "pointer_offset (forward_pointer_name ! 12) (forward_pointer_name ! (12 + 1)) = 14"
    by (simp add: forward_pointer_name_def pointer_offset_def)
  have len: "length forward_pointer_name = 18" by (simp add: forward_pointer_name_def)
  show ?thesis
    using pointer_followed_iff_target_inside_packet[OF h1 h2, of None "[]"] h1 h2
    unfolding po len by simp
qed

theorem forward_pointer_is_followed:
  "pointer_offset (forward_pointer_name ! 12) (forward_pointer_name ! 13) = 14 \<and>
   read_domain_name forward_pointer_name 12 = Some (Inr (''a'', 14)) \<and>
   (case DNSPacket_init forward_pointer_name of
      Some (Inr p) \<Rightarrow> map q_domain (questions p) = [''a'']
    | _ \<Rightarrow> False)"
  by (simp add: forward_pointer_target forward_pointer_read forward_pointer_parse)

section \<open>Types, classes and data lengths\<close>

lemma mx_query_parse:
  "DNSPacket_init mx_query =
     Some (Inr \<lparr>raw_data = mx_query, position = 19,
       header = \<lparr>packet_id = 0x1234, flags = 0x100, questions_count = 1, answers_count = 0,
                  authority_count = 0, additional_count = 0\<rparr>,
       questions = [\<lparr>q_domain = ''a'', q_record_type = 15, q_record_class = 3\<rparr>],
       answers = [], authority_records = [], additional_records = []\<rparr>)"
  by (simp add: mx_query_def decoder_eval)

lemma chaos_answer_parse:
  "DNSPacket_init chaos_answer =
     Some (Inr \<lparr>raw_data = chaos_answer, position = 29,
       header = \<lparr>packet_id = 0x1234, flags = 0x8000, questions_count = 0, answers_count = 1,
                  authority_count = 0, additional_count = 0\<rparr>,
       questions = [],
       answers = [\<lparr>domain = ''a'', record_type = 1, record_class = 3, ttl = 60,
                     data_length = 4, data = ''10.0.0.1''\<rparr>],
       authority_records = [], additional_records = []\<rparr>)"
  by (simp add: chaos_answer_def decoder_eval)

lemma mx_answer_parse:
  "DNSPacket_init mx_answer = Some (Inl (ValueError ''Unsupported record type: 15''))"
  by (simp add: mx_answer_def decoder_eval)


lemma parse_record_data_type:
  "parse_record_data raw pos rtype dlen = Some (Inr v) \<Longrightarrow> rtype \<in> {1, 2, 12, 28}"
  by (auto simp: parse_record_data_def DNSRecordType_A_def DNSRecordType_NS_def
      DNSRecordType_PTR_def DNSRecordType_AAAA_def split: if_splits)

lemma parse_record_section_types:
  "parse_record_section raw pos n = Some (Inr (rs, p)) \<Longrightarrow>
   \<forall>r \<in> set rs. record_type r \<in> {1, 2, 12, 28}"
proof (induction n arbitrary: pos rs p)
  case 0
  then show ?case by simp
next
  case (Suc n)
  from Suc.prems obtain name pos1 r_type r_class r_ttl data_len record_data pos2 rs' where
    rd: "parse_record_data raw (pos1 + 10) r_type data_len = Some (Inr (record_data, pos2))"
    and rest: "parse_record_section raw pos2 n = Some (Inr (rs', p))"
    and rs: "rs = \<lparr>domain = name, record_type = r_type, record_class = r_class, ttl = r_ttl,
                   data_length = data_len, data = record_data\<rparr> # rs'"
    by (auto split: option.splits sum.splits prod.splits)
  from parse_record_data_type[OF rd] Suc.IH[OF rest] rs show ?case by simp
qed

lemma packet_record_types:
  assumes "DNSPacket_init raw = Some (Inr p)"
  shows "\<forall>r \<in> set (answers p @ authority_records p @ additional_records p).
           record_type r \<in> {1, 2, 12, 28}"
proof -
  from assms obtain h qs p1 ans p2 auth p3 adds p4 where
    a: "parse_record_section raw p1 (answers_count h) = Some (Inr (ans, p2))"
    and b: "parse_record_section raw p2 (authority_count h) = Some (Inr (auth, p3))"
    and c: "parse_record_section raw p3 (additional_count h) = Some (Inr (adds, p4))"
    and p: "p = \<lparr>raw_data = raw, position = p4, header = h, questions = qs, answers = ans,
                 authority_records = auth, additional_records = adds\<rparr>"
    by (auto simp: DNSPacket_init_def split: option.splits sum.splits prod.splits)
  from parse_record_section_types[OF a] parse_record_section_types[OF b]
    parse_record_section_types[OF c]
  show ?thesis by (auto simp: p)
qed

text \<open>Reading \<open>m + n\<close> records is reading \<open>m\<close> records and then \<open>n\<close> more.\<close>

lemma parse_record_section_append:
  "parse_record_section raw pos (m + n) =
     (case parse_record_section raw pos m of
        None \<Rightarrow> None
      | Some (Inl e) \<Rightarrow> Some (Inl e)
      | Some (Inr (rs, p)) \<Rightarrow>
          (case parse_record_section raw p n of
             None \<Rightarrow> None
           | Some (Inl e) \<Rightarrow> Some (Inl e)
           | Some (Inr (rs', p')) \<Rightarrow> Some (Inr (rs @ rs', p'))))"
proof (induction m arbitrary: pos)
  case 0
  show ?case by (simp split: option.splits sum.splits prod.splits)
next
  case (Suc m)
  show ?case
    by (simp add: Suc.IH split: option.splits sum.splits prod.splits)
qed

text \<open>A record of an unsupported type at the cursor fails the section.\<close>

lemma unsupported_type_first:
  assumes "read_domain_name raw pos = Some (Inr (name, pn))"
    and "unpack_HHIH (slice raw pn (pn + 10)) = Inr (rtype, rclass, rttl, dlen)"
    and "rtype \<notin> {1, 2, 12, 28}"
  shows "parse_record_section raw pos (Suc n) =
           Some (Inl (ValueError (''Unsupported record type: '' @ str_nat rtype)))"
proof -
  have "parse_record_data raw (pn + 10) rtype dlen =
          Some (Inl (ValueError (''Unsupported record type: '' @ str_nat rtype)))"
    using assms(3)
    by (simp add: parse_record_data_def DNSRecordType_A_def DNSRecordType_NS_def
        DNSRecordType_PTR_def DNSRecordType_AAAA_def)
  then show ?thesis using assms(1,2) by simp
qed

lemma unsupported_type_after:
  assumes "parse_record_section raw p1 k = Some (Inr (rs, pk))"
    and "read_domain_name raw pk = Some (Inr (name, pn))"
    and "unpack_HHIH (slice raw pn (pn + 10)) = Inr (rtype, rclass, rttl, dlen)"
    and "rtype \<notin> {1, 2, 12, 28}"
    and "k < n"
  shows "parse_record_section raw p1 n =
           Some (Inl (ValueError (''Unsupported record type: '' @ str_nat rtype)))"
proof -
  from assms(5) have "n = k + Suc (n - Suc k)" by simp
  then obtain j where n: "n = k + Suc j" ..
  have bad: "parse_record_section raw pk (Suc j) =
          Some (Inl (ValueError (''Unsupported record type: '' @ str_nat rtype)))"
    by (rule unsupported_type_first[OF assms(2,3,4)])
  have "parse_record_section raw p1 (k + Suc j) =
          Some (Inl (ValueError (''Unsupported record type: '' @ str_nat rtype)))"
    by (simp only: parse_record_section_append assms(1) bad option.case sum.case prod.case)
  then show ?thesis by (simp only: n)
qed

text \<open>The three sections are read one after the other: when reading all their records in
  one run raises, the packet fails with that exception.\<close>

lemma parse_record_section_append_fails:
  assumes "parse_record_section raw pos (m + n) = Some (Inl e)"
  shows "parse_record_section raw pos m = Some (Inl e) \<or>
         (\<exists>rs p. parse_record_section raw pos m = Some (Inr (rs, p)) \<and>
                 parse_record_section raw p n = Some (Inl e))"
  using assms unfolding parse_record_section_append
  by (auto split: option.splits sum.splits prod.splits)

lemma sections_fail:
  assumes "parse_header raw = Inr h"
    and "parse_questions raw 12 (questions_count h) = Some (Inr (qs, p1))"
    and "parse_record_section raw p1
           (answers_count h + authority_count h + additional_count h) = Some (Inl e)"
  shows "DNSPacket_init raw = Some (Inl e)"
proof -
  have all: "parse_record_section raw p1
          (answers_count h + (authority_count h + additional_count h)) = Some (Inl e)"
    using assms(3) by (simp add: add.assoc)
  consider
    (answers) "parse_record_section raw p1 (answers_count h) = Some (Inl e)"
  | (authority) ans p2 where
      "parse_record_section raw p1 (answers_count h) = Some (Inr (ans, p2))"
      "parse_record_section raw p2 (authority_count h) = Some (Inl e)"
  | (additional) ans p2 auth p3 where
      "parse_record_section raw p1 (answers_count h) = Some (Inr (ans, p2))"
      "parse_record_section raw p2 (authority_count h) = Some (Inr (auth, p3))"
      "parse_record_section raw p3 (additional_count h) = Some (Inl e)"
    using parse_record_section_append_fails[OF all]
      parse_record_section_append_fails[of raw _ "authority_count h" "additional_count h" e]
    by blast
  then show ?thesis
  proof cases
    case answers
    then show ?thesis by (simp add: DNSPacket_init_def assms(1,2))
  next
    case authority
    then show ?thesis by (simp add: DNSPacket_init_def assms(1,2))
  next
    case additional
    then show ?thesis by (simp add: DNSPacket_init_def assms(1,2))
  qed
qed

lemma mx_additional_parse:
  "DNSPacket_init mx_additional = Some (Inl (ValueError ''Unsupported record type: 15''))"
  by (simp add: mx_additional_def decoder_eval)

text \<open>
  C7. The decoder checks the type of resource records only. In every packet whose header
  and questions decode: when the first \<open>k\<close> resource records decode, \<open>k\<close> below the sum of
  the three record counts, and the next record, after its name, has a 16-bit type that is
  not 1, 2, 12 or 28, the decoder fails the whole packet with ValueError, whatever follows
  and whichever section the record is in. The type and class of a question and the class
  of a resource record are not looked at.
\<close>

theorem unsupported_record_type_fails_packet:
  assumes "parse_header raw = Inr h"
    and "parse_questions raw 12 (questions_count h) = Some (Inr (qs, p1))"
    and "k < answers_count h + authority_count h + additional_count h"
    and "parse_record_section raw p1 k = Some (Inr (rs, pk))"
    and "read_domain_name raw pk = Some (Inr (name, pn))"
    and "unpack_HHIH (slice raw pn (pn + 10)) = Inr (rtype, rclass, rttl, dlen)"
    and "rtype \<notin> {1, 2, 12, 28}"
  shows "DNSPacket_init raw =
           Some (Inl (ValueError (''Unsupported record type: '' @ str_nat rtype)))"
  by (rule sections_fail[OF assms(1,2)])
     (rule unsupported_type_after[OF assms(4,5,6,7,3)])

theorem unsupported_record_type_fails_packet_witness:
  "DNSPacket_init mx_additional = Some (Inl (ValueError ''Unsupported record type: 15''))"
proof -
  let ?h = "\<lparr>packet_id = 0x1234, flags = 0x8000, questions_count = 0, answers_count = 1,
             authority_count = 0, additional_count = 1\<rparr>"
  let ?a = "\<lparr>domain = ''a'', record_type = 1, record_class = 1, ttl = 60,
             data_length = 4, data = ''10.0.0.1''\<rparr>"
  have h: "parse_header mx_additional = Inr ?h"
    by (simp add: mx_additional_def decoder_eval)
  have q: "parse_questions mx_additional 12 (questions_count ?h) = Some (Inr ([], 12))"
    by simp
  have k: "(1::nat) < answers_count ?h + authority_count ?h + additional_count ?h"
    by simp
  have "parse_record_section mx_additional 12 (Suc 0) = Some (Inr ([?a], 29))"
    by (simp add: mx_additional_def decoder_eval)
  then have first: "parse_record_section mx_additional 12 1 = Some (Inr ([?a], 29))"
    by simp
  have name: "read_domain_name mx_additional 29 = Some (Inr (''a'', 32))"
    by (simp add: mx_additional_def decoder_eval)
  have hdr: "unpack_HHIH (slice mx_additional 32 (32 + 10)) = Inr (15, 1, 60, 4)"
    by (simp add: mx_additional_def decoder_eval)
  have t: "(15::nat) \<notin> {1, 2, 12, 28}" by simp
  have s: "''Unsupported record type: '' @ str_nat 15 = ''Unsupported record type: 15''"
    by (simp add: digit_char_def char_of_eq_iff)
  show ?thesis
    using unsupported_record_type_fails_packet[OF h q k first name hdr t]
    unfolding s .
qed

theorem question_type_and_record_class_not_validated:
  "(case DNSPacket_init mx_query of
      Some (Inr p) \<Rightarrow>
        questions p = [\<lparr>q_domain = ''a'', q_record_type = 15, q_record_class = 3\<rparr>]
    | _ \<Rightarrow> False) \<and>
   (case DNSPacket_init chaos_answer of
      Some (Inr p) \<Rightarrow>
        answers p = [\<lparr>domain = ''a'', record_type = 1, record_class = 3, ttl = 60,
                      data_length = 4, data = ''10.0.0.1''\<rparr>]
    | _ \<Rightarrow> False)"
  by (simp add: mx_query_parse chaos_answer_parse)

lemma short_a_answer_parse:
  "DNSPacket_init short_a_answer =
     Some (Inr \<lparr>raw_data = short_a_answer, position = 28,
       header = \<lparr>packet_id = 0x1234, flags = 0x8000, questions_count = 0, answers_count = 1,
                  authority_count = 0, additional_count = 0\<rparr>,
       questions = [],
       answers = [\<lparr>domain = ''a'', record_type = 1, record_class = 1, ttl = 60,
                     data_length = 3, data = ''10.0.1''\<rparr>],
       authority_records = [], additional_records = []\<rparr>)"
  by (simp add: short_a_answer_def decoder_eval)

lemma short_aaaa_answer_parse:
  "DNSPacket_init short_aaaa_answer =
     Some (Inr \<lparr>raw_data = short_aaaa_answer, position = 27,
       header = \<lparr>packet_id = 0x1234, flags = 0x8000, questions_count = 0, answers_count = 1,
                  authority_count = 0, additional_count = 0\<rparr>,
       questions = [],
       answers = [\<lparr>domain = ''a'', record_type = 28, record_class = 1, ttl = 60,
                     data_length = 2, data = ''002a''\<rparr>],
       authority_records = [], additional_records = []\<rparr>)"
  by (simp add: short_aaaa_answer_def decoder_eval)

text \<open>
  C8. The decoder takes the data length from the wire and does not compare it with 4 or
  16. The data of an A record of length \<open>n\<close> is accepted exactly when \<open>n\<close> bytes are left in
  the packet, and decodes to \<open>n\<close> decimal octets joined by dots; the data of an AAAA record
  of length \<open>n\<close> is accepted exactly when the bytes left, at most \<open>n\<close>, number
  \<open>2 * (n div 2)\<close>, and decodes to \<open>n div 2\<close> groups of four hexadecimal digits joined by
  colons. Otherwise the packet fails with \<open>struct.error\<close>.
\<close>

theorem rdata_length_taken_from_wire:
  "parse_record_data raw pos DNSRecordType_A dlen =
     (if length (slice raw pos (pos + dlen)) = dlen
      then Some (Inr (join ''.'' (map str_nat (map unat (slice raw pos (pos + dlen)))),
                      pos + dlen))
      else Some (Inl StructError)) \<and>
   parse_record_data raw pos DNSRecordType_AAAA dlen =
     (if length (slice raw pos (pos + dlen)) = 2 * (dlen div 2)
      then Some (Inr (join '':'' (map hex04 (be16s (slice raw pos (pos + dlen)))),
                      pos + dlen))
      else Some (Inl StructError))"
  by (simp add: parse_record_data_def unpack_Bs_def unpack_Hs_def DNSRecordType_A_def
      DNSRecordType_NS_def DNSRecordType_PTR_def DNSRecordType_AAAA_def)

theorem rdata_length_taken_from_wire_witness:
  "parse_record_data short_a_answer 25 DNSRecordType_A 3 = Some (Inr (''10.0.1'', 28)) \<and>
   parse_record_data short_a_answer 25 DNSRecordType_A 4 = Some (Inl StructError) \<and>
   parse_record_data short_aaaa_answer 25 DNSRecordType_AAAA 2 = Some (Inr (''002a'', 27)) \<and>
   parse_record_data short_aaaa_answer 25 DNSRecordType_AAAA 16 = Some (Inl StructError)"
proof -
  have a3: "slice short_a_answer 25 (25 + 3) = [10, 0, 1]"
    by (simp add: short_a_answer_def slice_def)
  have a4: "slice short_a_answer 25 (25 + 4) = [10, 0, 1]"
    by (simp add: short_a_answer_def slice_def)
  have b2: "slice short_aaaa_answer 25 (25 + 2) = [0x00, 0x2a]"
    by (simp add: short_aaaa_answer_def slice_def)
  have b16: "slice short_aaaa_answer 25 (25 + 16) = [0x00, 0x2a]"
    by (simp add: short_aaaa_answer_def slice_def)
  have s: "join ''.'' (map str_nat (map unat [10, 0, 1 :: byte])) = ''10.0.1''"
    by (simp add: digit_char_def char_of_eq_iff)
  have h: "join '':'' (map hex04 (be16s [0x00, 0x2a :: byte])) = ''002a''"
    by (simp add: decoder_eval)
  show ?thesis
    using rdata_length_taken_from_wire[of short_a_answer 25 3]
      rdata_length_taken_from_wire[of short_a_answer 25 4]
      rdata_length_taken_from_wire[of short_aaaa_answer 25 2]
      rdata_length_taken_from_wire[of short_aaaa_answer 25 16]
    unfolding a3 a4 b2 b16 s h by simp
qed

theorem rdata_with_other_lengths_accepted:
  "(case DNSPacket_init short_a_answer of
      Some (Inr p) \<Rightarrow>
        answers p = [\<lparr>domain = ''a'', record_type = 1, record_class = 1, ttl = 60,
                      data_length = 3, data = ''10.0.1''\<rparr>]
    | _ \<Rightarrow> False) \<and>
   (case DNSPacket_init short_aaaa_answer of
      Some (Inr p) \<Rightarrow>
        answers p = [\<lparr>domain = ''a'', record_type = 28, record_class = 1, ttl = 60,
                      data_length = 2, data = ''002a''\<rparr>]
    | _ \<Rightarrow> False)"
  by (simp add: short_a_answer_parse short_aaaa_answer_parse)

section \<open>The resolver\<close>











end
